theory Spec2Isabelle
  imports Main "HOL-Library.Sublist"
begin

section \<open>JavaScript values, errors and strings\<close>

text \<open>
  Strings are \<^typ>\<open>string\<close>: each \<^typ>\<open>char\<close> is read as one UTF-16 code unit below 256.
  Numbers are integers (ports, epoch milliseconds, JSON integers); fractional numbers and
  \<open>NaN\<close> are outside the model, except for the time value of an invalid \<open>Date\<close>.
\<close>

datatype jsValue =
    Undefined
  | Null
  | JBoolean bool
  | JNumber int
  | JString string
  | JArray "jsValue list"
  | JObject "(string \<times> jsValue) list"
  | NumberObject int
  | StringObject string

text \<open>
  An \<open>Error\<close> carries its message. The message of a \<open>TypeError\<close> is the engine's
  (the text of V8 is used).
\<close>

datatype error = Error string | TypeError string

fun message :: "error \<Rightarrow> string" where
  "message (Error m) = m"
| "message (TypeError m) = m"

text \<open>Neither \<open>new Error(m)\<close> nor a \<open>TypeError\<close> has a property \<open>stderr\<close>: reading it gives \<open>undefined\<close>.\<close>

definition stderr :: "error \<Rightarrow> string option" where
  "stderr err = None"

definition digitChar :: "nat \<Rightarrow> char" where
  "digitChar d = (''0123456789'' ! d)"

function digits :: "nat \<Rightarrow> string" where
  "digits n = (if n < 10 then [digitChar n] else digits (n div 10) @ [digitChar (n mod 10)])"
  by pat_completeness auto
termination
  by (relation "measure id") auto

declare digits.simps [simp del]

text \<open>\<open>Number.prototype.toString\<close> on an integer (plain decimal, below \<open>10^21\<close> in magnitude).\<close>

definition Number_toString :: "int \<Rightarrow> string" where
  "Number_toString n = (if n < 0 then CHR ''-'' # digits (nat (- n)) else digits (nat n))"

fun join :: "string list \<Rightarrow> string" where
  "join [] = []"
| "join [s] = s"
| "join (s # t # ss) = s @ CHR '','' # join (t # ss)"

text \<open>
  The conversion a template literal applies to \<open>${v}\<close>. An array joins its elements
  with commas, \<open>null\<close> and \<open>undefined\<close> elements giving the empty string.
\<close>

fun toString_js :: "jsValue \<Rightarrow> string"
  and elementStrings :: "jsValue list \<Rightarrow> string list" where
  "toString_js Undefined = ''undefined''"
| "toString_js Null = ''null''"
| "toString_js (JBoolean b) = (if b then ''true'' else ''false'')"
| "toString_js (JNumber n) = Number_toString n"
| "toString_js (JString s) = s"
| "toString_js (JArray vs) = join (elementStrings vs)"
| "toString_js (JObject ps) = ''[object Object]''"
| "toString_js (NumberObject n) = Number_toString n"
| "toString_js (StringObject s) = s"
| "elementStrings [] = []"
| "elementStrings (v # vs) =
     (if v = Undefined \<or> v = Null then [] else toString_js v) # elementStrings vs"

text \<open>What \<open>!v\<close> negates.\<close>

fun truthy :: "jsValue \<Rightarrow> bool" where
  "truthy Undefined = False"
| "truthy Null = False"
| "truthy (JBoolean b) = b"
| "truthy (JNumber n) = (n \<noteq> 0)"
| "truthy (JString s) = (s \<noteq> [])"
| "truthy v = True"



text \<open>
  \<open>v.name\<close> for the two names the code reads, \<open>token_type\<close> and \<open>access_token\<close>:
  only an object literal can hold them.
\<close>

fun getProp :: "jsValue \<Rightarrow> string \<Rightarrow> error + jsValue" where
  "getProp Undefined name = Inl (TypeError (''Cannot read property '' @ [CHR 0x27] @ name @ [CHR 0x27] @ '' of undefined''))"
| "getProp Null name = Inl (TypeError (''Cannot read property '' @ [CHR 0x27] @ name @ [CHR 0x27] @ '' of null''))"
| "getProp (JObject ps) name = Inr (case map_of ps name of None \<Rightarrow> Undefined | Some v \<Rightarrow> v)"
| "getProp v name = Inr Undefined"

subsection \<open>encodeURIComponent\<close>

definition uriUnreserved :: "char \<Rightarrow> bool" where
  "uriUnreserved c \<longleftrightarrow>
     c \<in> set (''ABCDEFGHIJKLMNOPQRSTUVWXYZabcdefghijklmnopqrstuvwxyz0123456789-_.!~*()'' @ [CHR 0x27])"

definition hexDigit :: "nat \<Rightarrow> char" where
  "hexDigit d = (''0123456789ABCDEF'' ! d)"

definition percentByte :: "nat \<Rightarrow> string" where
  "percentByte b = [CHR ''%'', hexDigit (b div 16), hexDigit (b mod 16)]"

text \<open>A code unit below 128 is one UTF-8 byte, one from 128 to 255 is two.\<close>

definition encodeUnit :: "char \<Rightarrow> string" where
  "encodeUnit c =
     (if uriUnreserved c then [c]
      else let n = (of_char c :: nat) in
        if n < 128 then percentByte n
        else percentByte (192 + n div 64) @ percentByte (128 + n mod 64))"

definition encodeURIComponent :: "string \<Rightarrow> string" where
  "encodeURIComponent s = concat (map encodeUnit s)"

section \<open>AzureCliCredentials\<close>

text \<open>A \<open>Date\<close> holds a time value in milliseconds since the epoch, or \<open>NaN\<close> when it is invalid.\<close>

datatype date = Date int | InvalidDate

fun getTime :: "date \<Rightarrow> int option" where
  "getTime (Date ms) = Some ms"
| "getTime InvalidDate = None"

text \<open>
  The object \<open>getToken\<close> returns has the two fields \<open>accessToken\<close> and \<open>tokenType\<close>;
  a \<open>CliAccessToken\<close> has them and three more. \<open>expiresOn\<close> is \<open>None\<close> when the
  property is missing.
\<close>

record tokenResponse =
  accessToken :: string
  tokenType :: string

record cliAccessToken = tokenResponse +
  expiresOn :: "date option"
  subscription :: string
  tenant :: string

record linkedSubscription =
  id' :: string

record azureCliCredentials =
  subscriptionInfo :: linkedSubscription
  tokenInfo :: cliAccessToken

definition tokenRenewalMarginInSeconds :: int where
  "tokenRenewalMarginInSeconds = 270"

text \<open>\<open>new Date(v)\<close>: always a \<open>Date\<close> object, invalid when \<open>v\<close> is missing.\<close>

fun newDate :: "date option \<Rightarrow> date" where
  "newDate None = InvalidDate"
| "newDate (Some d) = d"

text \<open>
  \<open>execAz\<close> is not part of the repository and is a parameter: it answers a command with
  \<open>Inl stack\<close>, a rejection with an error whose \<open>stack\<close> is that text, or \<open>Inr r\<close>, the
  parsed output. In \<open>r\<close> the field \<open>expiresOn\<close> is the instant the printed text denotes
  to \<open>new Date\<close> (\<open>InvalidDate\<close> if it does not parse, \<open>None\<close> if the output has no
  such property). The second component of the result is the list of commands run.
\<close>

definition getAccessToken ::
  "(string \<Rightarrow> string + cliAccessToken) \<Rightarrow> string option \<Rightarrow> (error + cliAccessToken) \<times> string list" where
  "getAccessToken execAz subscriptionIdOrName =
     (let cmd = ''account get-access-token'' @
            (case subscriptionIdOrName of
               None \<Rightarrow> []
             | Some s \<Rightarrow> if s \<noteq> [] then '' -s '' @ [CHR 0x22] @ s @ [CHR 0x22] else [])
      in case execAz cmd of
           Inr result \<Rightarrow> (Inr (result\<lparr>expiresOn := Some (newDate (expiresOn result))\<rparr>), [cmd])
         | Inl stack \<Rightarrow>
             (Inl (Error (''An error occurred while getting credentials from Azure CLI: '' @ stack)),
              [cmd]))"

text \<open>
  \<open>getToken\<close> at the clock reading \<open>nowMs\<close> (\<open>Date.now()\<close>, in milliseconds). The result is
  the outcome, the credentials after the call and the commands run.
  \<open>Math.floor(x / 1000)\<close> on an integer \<open>x\<close> is \<open>x div 1000\<close>; a comparison with \<open>NaN\<close>
  is false.
\<close>

definition AzureCliCredentials_getToken ::
  "(string \<Rightarrow> string + cliAccessToken) \<Rightarrow> int \<Rightarrow> azureCliCredentials
     \<Rightarrow> (error + tokenResponse) \<times> azureCliCredentials \<times> string list" where
  "AzureCliCredentials_getToken execAz nowMs this =
     (let now = nowMs div 1000 in
      if (case expiresOn (tokenInfo this) of
            None \<Rightarrow> True
          | Some d \<Rightarrow>
              id' (subscriptionInfo this) \<noteq> subscription (tokenInfo this) \<or>
              (case getTime d of
                 None \<Rightarrow> False
               | Some ms \<Rightarrow> ms div 1000 - now < tokenRenewalMarginInSeconds))
      then
        (case getAccessToken execAz (Some (id' (subscriptionInfo this))) of
           (Inr t, cmds) \<Rightarrow>
             (Inr \<lparr>accessToken = accessToken t, tokenType = tokenType t\<rparr>,
              this\<lparr>tokenInfo := t\<rparr>, cmds)
         | (Inl err, cmds) \<Rightarrow>
             (Inl (Error (''An error occurred while refreshing the new access token:'' @
                    (case stderr err of
                       Some s \<Rightarrow> if s \<noteq> [] then s else message err
                     | None \<Rightarrow> message err))),
              this, cmds))
      else
        (Inr \<lparr>accessToken = accessToken (tokenInfo this), tokenType = tokenType (tokenInfo this)\<rparr>,
         this, []))"

section \<open>Requests\<close>

text \<open>
  A request to be signed is any record with a mapping of header names to values;
  the options of the metadata request add a url, a body and a method.
\<close>

record webResource =
  headers :: "string \<rightharpoonup> string"

record requestOptions = webResource +
  url :: string
  body :: string
  "method" :: string

text \<open>
  Modelled from the spec: the constant \<open>Constants.HeaderConstants.AUTHORIZATION\<close> of
  ms-rest-js is not part of the repository; the spec calls it the standard authorization
  header name.
\<close>

definition AUTHORIZATION :: string where
  "AUTHORIZATION = ''authorization''"

text \<open>
  \<open>signRequest\<close>: the outcome, the credentials and the request object after the call,
  and the commands run. \<open>headers.set\<close> writes one entry of the mapping.
\<close>

definition AzureCliCredentials_signRequest ::
  "(string \<Rightarrow> string + cliAccessToken) \<Rightarrow> int \<Rightarrow> azureCliCredentials \<Rightarrow> 'a webResource_scheme
     \<Rightarrow> (error + 'a webResource_scheme) \<times> azureCliCredentials \<times> 'a webResource_scheme \<times> string list" where
  "AzureCliCredentials_signRequest execAz nowMs this webResource =
     (case AzureCliCredentials_getToken execAz nowMs this of
        (Inl err, this', cmds) \<Rightarrow> (Inl err, this', webResource, cmds)
      | (Inr tokenResponse, this', cmds) \<Rightarrow>
          (let webResource' = webResource\<lparr>headers := (headers webResource)
                 (AUTHORIZATION \<mapsto> tokenType tokenResponse @ '' '' @ accessToken tokenResponse)\<rparr>
           in (Inr webResource', this', webResource', cmds)))"

section \<open>MSITokenCredentials\<close>

text \<open>The fields keep the values the constructor was given.\<close>

record mSITokenCredentials =
  port :: jsValue
  resource :: jsValue


definition prepareRequestOptions :: "mSITokenCredentials \<Rightarrow> requestOptions" where
  "prepareRequestOptions this =
     (let resource = encodeURIComponent (toString_js (resource this)) in
      \<lparr>headers = [''Content-Type'' \<mapsto> ''application/x-www-form-urlencoded; charset=UTF-8'',
                  ''Metadata'' \<mapsto> ''true''],
       url = ''http://localhost:'' @ toString_js (port this) @ ''/oauth2/token'',
       body = ''resource='' @ resource, method = ''POST''\<rparr>)"

text \<open>The response of \<open>client.sendRequest\<close>, of which the code reads two properties.\<close>

record httpOperationResponse =
  bodyAsJson :: jsValue
  bodyAsText :: jsValue

text \<open>
  \<open>sendRequest\<close> stands for \<open>client.sendRequest\<close> of ms-rest-js: it rejects with an error
  or resolves with a response. The result of \<open>getToken\<close> is the outcome, the credentials
  after the call and the requests sent.
\<close>

definition MSITokenCredentials_getToken ::
  "(requestOptions \<Rightarrow> error + httpOperationResponse) \<Rightarrow> mSITokenCredentials
     \<Rightarrow> (error + jsValue) \<times> mSITokenCredentials \<times> requestOptions list" where
  "MSITokenCredentials_getToken sendRequest this =
     (let reqOptions = prepareRequestOptions this in
      ((case sendRequest reqOptions of
          Inl err \<Rightarrow> Inl err
        | Inr opRes \<Rightarrow>
            (let result = bodyAsJson opRes in
             case getProp result ''token_type'' of
               Inl err \<Rightarrow> Inl err
             | Inr token_type \<Rightarrow>
                 if \<not> truthy token_type
                 then Inl (Error (''Invalid token response, did not find token_type. Response body is: '' @
                                  toString_js (bodyAsText opRes)))
                 else
                   (case getProp result ''access_token'' of
                      Inl err \<Rightarrow> Inl err
                    | Inr access_token \<Rightarrow>
                        if \<not> truthy access_token
                        then Inl (Error (''Invalid token response, did not find access_token. Response body is: '' @
                                         toString_js (bodyAsText opRes)))
                        else Inr result))),
       this, [reqOptions]))"

text \<open>
  \<open>signRequest\<close>: the outcome, the credentials and the request object after the call,
  and the requests sent.
\<close>

definition MSITokenCredentials_signRequest ::
  "(requestOptions \<Rightarrow> error + httpOperationResponse) \<Rightarrow> mSITokenCredentials \<Rightarrow> 'a webResource_scheme
     \<Rightarrow> (error + 'a webResource_scheme) \<times> mSITokenCredentials \<times> 'a webResource_scheme \<times> requestOptions list" where
  "MSITokenCredentials_signRequest sendRequest this webResource =
     (case MSITokenCredentials_getToken sendRequest this of
        (Inl err, this', reqs) \<Rightarrow> (Inl err, this', webResource, reqs)
      | (Inr tokenResponse, this', reqs) \<Rightarrow>
          (case getProp tokenResponse ''token_type'' of
             Inl err \<Rightarrow> (Inl err, this', webResource, reqs)
           | Inr token_type \<Rightarrow>
               (case getProp tokenResponse ''access_token'' of
                  Inl err \<Rightarrow> (Inl err, this', webResource, reqs)
                | Inr access_token \<Rightarrow>
                    (let webResource' = webResource\<lparr>headers := (headers webResource)
                           (AUTHORIZATION \<mapsto> toString_js token_type @ '' '' @ toString_js access_token)\<rparr>
                     in (Inr webResource', this', webResource', reqs)))))"

section \<open>Sample inputs\<close>

text \<open>A command-line tool that gives the same answer to every command.\<close>

definition execAz_reply :: "string + cliAccessToken \<Rightarrow> string \<Rightarrow> string + cliAccessToken" where
  "execAz_reply answer cmd = answer"

definition sampleToken :: "string \<Rightarrow> string \<Rightarrow> int \<Rightarrow> cliAccessToken" where
  "sampleToken a sub ms =
     \<lparr>accessToken = a, tokenType = ''Bearer'', expiresOn = Some (Date ms),
      subscription = sub, tenant = ''contoso''\<rparr>"

text \<open>Credentials that cache \<open>abc123\<close>, a token of subscription \<open>A\<close>, and want subscription \<open>sub\<close>.\<close>

definition sampleCredentials :: "string \<Rightarrow> int \<Rightarrow> azureCliCredentials" where
  "sampleCredentials sub ms =
     \<lparr>subscriptionInfo = \<lparr>id' = sub\<rparr>, tokenInfo = sampleToken ''abc123'' ''A'' ms\<rparr>"

text \<open>A metadata service that gives the same answer to every request.\<close>

definition sendRequest_reply ::
  "error + httpOperationResponse \<Rightarrow> requestOptions \<Rightarrow> error + httpOperationResponse" where
  "sendRequest_reply answer reqOptions = answer"

definition defaultCredentials :: mSITokenCredentials where
  "defaultCredentials =
     \<lparr>port = JNumber 50342, resource = JString ''https://management.azure.com/''\<rparr>"

text \<open>A response whose body is the object with the given properties.\<close>

definition response :: "(string \<times> jsValue) list \<Rightarrow> string \<Rightarrow> httpOperationResponse" where
  "response ps text = \<lparr>bodyAsJson = JObject ps, bodyAsText = JString text\<rparr>"

section \<open>Properties of AzureCliCredentials\<close>

lemma getAccessToken_calls: "\<exists>cmd. snd (getAccessToken execAz sub) = [cmd]"
  by (simp add: getAccessToken_def Let_def split: sum.split)

lemma getAccessToken_pair:
  "\<exists>cmd. getAccessToken execAz sub = (fst (getAccessToken execAz sub), [cmd])"
  using getAccessToken_calls [of execAz sub] by (metis prod.collapse)

lemma getAccessToken_expiresOn:
  "fst (getAccessToken execAz sub) = Inr t \<Longrightarrow> expiresOn t \<noteq> None"
  by (auto simp add: getAccessToken_def Let_def split: sum.splits)

lemma floor_margin:
  "(ms div 1000 - now < (270::int)) = (ms - 1000 * now < 1000 * 270)"
  by linarith

lemma getToken_cached:
  assumes "expiresOn (tokenInfo this) = Some (Date ms)"
    and "id' (subscriptionInfo this) = subscription (tokenInfo this)"
    and "270 \<le> ms div 1000 - nowMs div 1000"
  shows "AzureCliCredentials_getToken execAz nowMs this =
           (Inr \<lparr>accessToken = accessToken (tokenInfo this), tokenType = tokenType (tokenInfo this)\<rparr>,
            this, [])"
  using assms by (simp add: AzureCliCredentials_getToken_def tokenRenewalMarginInSeconds_def)

lemma getToken_failed:
  assumes "snd (snd (AzureCliCredentials_getToken execAz nowMs this)) \<noteq> []"
    and "fst (getAccessToken execAz (Some (id' (subscriptionInfo this)))) = Inl err"
  shows "\<exists>cmd. AzureCliCredentials_getToken execAz nowMs this =
           (Inl (Error (''An error occurred while refreshing the new access token:'' @ message err)),
            this, [cmd])"
proof -
  obtain cmd where "getAccessToken execAz (Some (id' (subscriptionInfo this))) = (Inl err, [cmd])"
    using getAccessToken_pair [of execAz "Some (id' (subscriptionInfo this))"] assms(2) by auto
  then show ?thesis
    using assms(1)
    by (auto simp add: AzureCliCredentials_getToken_def stderr_def split: if_splits)
qed

lemma getToken_tokenInfo:
  "tokenInfo (fst (snd (AzureCliCredentials_getToken execAz nowMs this))) = tokenInfo this \<or>
   fst (getAccessToken execAz (Some (id' (subscriptionInfo this)))) =
     Inr (tokenInfo (fst (snd (AzureCliCredentials_getToken execAz nowMs this))))"
proof -
  obtain r cmd where "getAccessToken execAz (Some (id' (subscriptionInfo this))) = (r, [cmd])"
    using getAccessToken_pair by blast
  then show ?thesis
    by (cases r) (simp_all add: AzureCliCredentials_getToken_def)
qed

lemma getToken_result:
  assumes "fst (AzureCliCredentials_getToken execAz nowMs this) = Inr r"
  shows "r = \<lparr>accessToken = accessToken (tokenInfo (fst (snd (AzureCliCredentials_getToken execAz nowMs this)))),
              tokenType = tokenType (tokenInfo (fst (snd (AzureCliCredentials_getToken execAz nowMs this))))\<rparr>"
proof -
  obtain q cmd where "getAccessToken execAz (Some (id' (subscriptionInfo this))) = (q, [cmd])"
    using getAccessToken_pair by blast
  then show ?thesis
    using assms by (cases q) (auto simp add: AzureCliCredentials_getToken_def split: if_splits)
qed

lemma getToken_refreshed:
  assumes "expiresOn (tokenInfo this) = Some (Date ms)"
    and "ms div 1000 - nowMs div 1000 < 270"
    and "fst (AzureCliCredentials_getToken execAz nowMs this) = Inr r"
  shows "\<exists>cmd t. AzureCliCredentials_getToken execAz nowMs this =
            (Inr \<lparr>accessToken = accessToken t, tokenType = tokenType t\<rparr>, this\<lparr>tokenInfo := t\<rparr>, [cmd]) \<and>
          getAccessToken execAz (Some (id' (subscriptionInfo this))) = (Inr t, [cmd])"
proof -
  obtain q cmd where q: "getAccessToken execAz (Some (id' (subscriptionInfo this))) = (q, [cmd])"
    using getAccessToken_pair by blast
  show ?thesis
    using assms q
    by (cases q) (auto simp add: AzureCliCredentials_getToken_def tokenRenewalMarginInSeconds_def)
qed

lemma getToken_runs_iff:
  "(snd (snd (AzureCliCredentials_getToken execAz nowMs this)) \<noteq> []) =
     (expiresOn (tokenInfo this) = None \<or>
      id' (subscriptionInfo this) \<noteq> subscription (tokenInfo this) \<or>
      (\<exists>ms. expiresOn (tokenInfo this) = Some (Date ms) \<and> ms div 1000 - nowMs div 1000 < 270))"
proof -
  obtain r cmd where r: "getAccessToken execAz (Some (id' (subscriptionInfo this))) = (r, [cmd])"
    using getAccessToken_pair by blast
  show ?thesis
  proof (cases "expiresOn (tokenInfo this)")
    case None
    then show ?thesis
      by (simp add: AzureCliCredentials_getToken_def r split: sum.split)
  next
    case (Some d)
    then show ?thesis
      by (cases d)
        (simp_all add: AzureCliCredentials_getToken_def tokenRenewalMarginInSeconds_def r
          split: sum.split)
  qed
qed

lemmas sample_defs =
  execAz_reply_def sampleToken_def sampleCredentials_def getAccessToken_def stderr_def
  tokenRenewalMarginInSeconds_def



text \<open>
  C2. When a refresh is required (C1 says when) and the fetch fails, \<open>getToken\<close> throws an error whose
  message wraps that of the failure, and the credentials, \<open>tokenInfo\<close> among them, are as
  before the call. A later \<open>getToken\<close>, made for the subscription of the cached token
  while that token is at least 270 seconds from expiry, returns the cached token and
  runs nothing. After any call \<open>tokenInfo\<close> is either unchanged or the payload of a
  fetch that succeeded.
\<close>

theorem getToken_failure_keeps_tokenInfo:
  fixes wanted :: linkedSubscription
  shows
  "((expiresOn (tokenInfo this) = None \<or>
     id' (subscriptionInfo this) \<noteq> subscription (tokenInfo this) \<or>
     (\<exists>t. expiresOn (tokenInfo this) = Some (Date t) \<and> t div 1000 - nowMs div 1000 < 270)) \<and>
    fst (getAccessToken execAz (Some (id' (subscriptionInfo this)))) = Inl err \<longrightarrow>
      fst (AzureCliCredentials_getToken execAz nowMs this) =
        Inl (Error (''An error occurred while refreshing the new access token:'' @ message err)) \<and>
      fst (snd (AzureCliCredentials_getToken execAz nowMs this)) = this \<and>
      (expiresOn (tokenInfo this) = Some (Date ms) \<and>
       id' wanted = subscription (tokenInfo this) \<and>
       270 \<le> ms div 1000 - nowMs' div 1000 \<longrightarrow>
         AzureCliCredentials_getToken execAz' nowMs'
             ((fst (snd (AzureCliCredentials_getToken execAz nowMs this)))\<lparr>subscriptionInfo := wanted\<rparr>) =
           (Inr \<lparr>accessToken = accessToken (tokenInfo this), tokenType = tokenType (tokenInfo this)\<rparr>,
            this\<lparr>subscriptionInfo := wanted\<rparr>, [])))
   \<and> (tokenInfo (fst (snd (AzureCliCredentials_getToken execAz nowMs this))) = tokenInfo this \<or>
      fst (getAccessToken execAz (Some (id' (subscriptionInfo this)))) =
        Inr (tokenInfo (fst (snd (AzureCliCredentials_getToken execAz nowMs this)))))"
proof (intro conjI impI)
  assume a: "(expiresOn (tokenInfo this) = None \<or>
     id' (subscriptionInfo this) \<noteq> subscription (tokenInfo this) \<or>
     (\<exists>t. expiresOn (tokenInfo this) = Some (Date t) \<and> t div 1000 - nowMs div 1000 < 270)) \<and>
    fst (getAccessToken execAz (Some (id' (subscriptionInfo this)))) = Inl err"
  then have "snd (snd (AzureCliCredentials_getToken execAz nowMs this)) \<noteq> []"
    by (simp add: getToken_runs_iff)
  with a obtain cmd where g: "AzureCliCredentials_getToken execAz nowMs this =
      (Inl (Error (''An error occurred while refreshing the new access token:'' @ message err)),
       this, [cmd])"
    using getToken_failed by blast
  show "fst (AzureCliCredentials_getToken execAz nowMs this) =
        Inl (Error (''An error occurred while refreshing the new access token:'' @ message err))"
    by (simp add: g)
  show "fst (snd (AzureCliCredentials_getToken execAz nowMs this)) = this"
    by (simp add: g)
  assume b: "expiresOn (tokenInfo this) = Some (Date ms) \<and>
       id' wanted = subscription (tokenInfo this) \<and>
       270 \<le> ms div 1000 - nowMs' div 1000"
  show "AzureCliCredentials_getToken execAz' nowMs'
           ((fst (snd (AzureCliCredentials_getToken execAz nowMs this)))\<lparr>subscriptionInfo := wanted\<rparr>) =
         (Inr \<lparr>accessToken = accessToken (tokenInfo this), tokenType = tokenType (tokenInfo this)\<rparr>,
          this\<lparr>subscriptionInfo := wanted\<rparr>, [])"
    using getToken_cached [of "this\<lparr>subscriptionInfo := wanted\<rparr>" ms nowMs' execAz'] b
    by (simp add: g)
next
  show "tokenInfo (fst (snd (AzureCliCredentials_getToken execAz nowMs this))) = tokenInfo this \<or>
      fst (getAccessToken execAz (Some (id' (subscriptionInfo this)))) =
        Inr (tokenInfo (fst (snd (AzureCliCredentials_getToken execAz nowMs this))))"
    by (rule getToken_tokenInfo)
qed

text \<open>
  The credentials want subscription \<open>B\<close> and cache a token of \<open>A\<close>; the tool fails.
  The caller then asks for \<open>A\<close> again.
\<close>

theorem getToken_failure_keeps_tokenInfo_witness:
  "AzureCliCredentials_getToken (execAz_reply (Inl ''az: not found'')) 1000999
       (sampleCredentials ''B'' 99999999) =
     (Inl (Error ''An error occurred while refreshing the new access token:An error occurred while getting credentials from Azure CLI: az: not found''),
      sampleCredentials ''B'' 99999999,
      [''account get-access-token -s '' @ [CHR 0x22] @ ''B'' @ [CHR 0x22]])
   \<and> AzureCliCredentials_getToken (execAz_reply (Inl ''az: not found'')) 2000000
       ((sampleCredentials ''B'' 99999999)\<lparr>subscriptionInfo := \<lparr>id' = ''A''\<rparr>\<rparr>) =
     (Inr \<lparr>accessToken = ''abc123'', tokenType = ''Bearer''\<rparr>, sampleCredentials ''A'' 99999999, [])"
proof -
  let ?az = "execAz_reply (Inl ''az: not found'')"
  let ?c = "sampleCredentials ''B'' 99999999"
  let ?err = "Error ''An error occurred while getting credentials from Azure CLI: az: not found''"
  have run: "snd (snd (AzureCliCredentials_getToken ?az 1000999 ?c)) =
      [''account get-access-token -s '' @ [CHR 0x22] @ ''B'' @ [CHR 0x22]]"
    by (simp add: AzureCliCredentials_getToken_def sample_defs)
  have required: "id' (subscriptionInfo ?c) \<noteq> subscription (tokenInfo ?c)"
    by (simp add: sample_defs)
  have fails: "fst (getAccessToken ?az (Some (id' (subscriptionInfo ?c)))) = Inl ?err"
    by (simp add: sample_defs)
  have valid: "expiresOn (tokenInfo ?c) = Some (Date 99999999) \<and>
      id' \<lparr>id' = ''A''\<rparr> = subscription (tokenInfo ?c) \<and>
      (270::int) \<le> 99999999 div 1000 - 2000000 div 1000"
    by (simp add: sample_defs)
  have t: "fst (AzureCliCredentials_getToken ?az 1000999 ?c) =
        Inl (Error (''An error occurred while refreshing the new access token:'' @ message ?err)) \<and>
      fst (snd (AzureCliCredentials_getToken ?az 1000999 ?c)) = ?c \<and>
      AzureCliCredentials_getToken ?az 2000000
             ((fst (snd (AzureCliCredentials_getToken ?az 1000999 ?c)))\<lparr>subscriptionInfo := \<lparr>id' = ''A''\<rparr>\<rparr>) =
           (Inr \<lparr>accessToken = accessToken (tokenInfo ?c), tokenType = tokenType (tokenInfo ?c)\<rparr>,
            ?c\<lparr>subscriptionInfo := \<lparr>id' = ''A''\<rparr>\<rparr>, [])"
    using getToken_failure_keeps_tokenInfo [where execAz = ?az and nowMs = 1000999 and this = ?c
        and err = ?err and ms = 99999999 and wanted = "\<lparr>id' = ''A''\<rparr>" and nowMs' = 2000000
        and execAz' = ?az] required fails valid
    by blast
  have p1: "AzureCliCredentials_getToken ?az 1000999 ?c =
     (Inl (Error ''An error occurred while refreshing the new access token:An error occurred while getting credentials from Azure CLI: az: not found''),
      ?c, [''account get-access-token -s '' @ [CHR 0x22] @ ''B'' @ [CHR 0x22]])"
    using t run by (simp add: prod_eq_iff)
  have p2: "AzureCliCredentials_getToken ?az 2000000 (?c\<lparr>subscriptionInfo := \<lparr>id' = ''A''\<rparr>\<rparr>) =
     (Inr \<lparr>accessToken = ''abc123'', tokenType = ''Bearer''\<rparr>, sampleCredentials ''A'' 99999999, [])"
  proof -
    have same: "fst (snd (AzureCliCredentials_getToken ?az 1000999 ?c)) = ?c"
      using t by blast
    have "AzureCliCredentials_getToken ?az 2000000
             ((fst (snd (AzureCliCredentials_getToken ?az 1000999 ?c)))\<lparr>subscriptionInfo := \<lparr>id' = ''A''\<rparr>\<rparr>) =
           (Inr \<lparr>accessToken = accessToken (tokenInfo ?c), tokenType = tokenType (tokenInfo ?c)\<rparr>,
            ?c\<lparr>subscriptionInfo := \<lparr>id' = ''A''\<rparr>\<rparr>, [])"
      using t by blast
    then show ?thesis
      unfolding same by (simp add: sampleCredentials_def sampleToken_def)
  qed
  from p1 p2 show ?thesis by simp
qed

text \<open>
  C3, as stated, fails: the cached token is more than 270 seconds from expiry, but the
  credentials want subscription \<open>B\<close> and the cached token is of \<open>A\<close>, so the tool is run
  and the new token is returned.
\<close>

theorem getToken_valid_expiry_other_subscription:
  "expiresOn (tokenInfo (sampleCredentials ''B'' 99999999)) = Some (Date 99999999) \<and>
   (270::int) \<le> 99999999 div 1000 - 1000999 div 1000 \<and>
   AzureCliCredentials_getToken (execAz_reply (Inr (sampleToken ''xyz789'' ''B'' 99999999))) 1000999
       (sampleCredentials ''B'' 99999999) =
     (Inr \<lparr>accessToken = ''xyz789'', tokenType = ''Bearer''\<rparr>,
      (sampleCredentials ''B'' 99999999)\<lparr>tokenInfo := sampleToken ''xyz789'' ''B'' 99999999\<rparr>,
      [''account get-access-token -s '' @ [CHR 0x22] @ ''B'' @ [CHR 0x22]])"
  by (simp add: AzureCliCredentials_getToken_def sample_defs)

text \<open>
  C3, amended. A call that succeeds returns the \<open>accessToken\<close> and \<open>tokenType\<close> of
  \<open>tokenInfo\<close> as it is after the call. If the cached token is at least 270 seconds from
  expiry and its subscription is the wanted one, it is returned and nothing is run. If it
  is less than 270 seconds from expiry and the call succeeds, the tool has been run exactly
  once and the fetched token is cached and returned.
\<close>

theorem getToken_returns_current:
  "(fst (AzureCliCredentials_getToken execAz nowMs this) = Inr r \<longrightarrow>
      r = \<lparr>accessToken = accessToken (tokenInfo (fst (snd (AzureCliCredentials_getToken execAz nowMs this)))),
            tokenType = tokenType (tokenInfo (fst (snd (AzureCliCredentials_getToken execAz nowMs this))))\<rparr>)
   \<and> (expiresOn (tokenInfo this) = Some (Date ms) \<and>
      id' (subscriptionInfo this) = subscription (tokenInfo this) \<and>
      270 \<le> ms div 1000 - nowMs div 1000 \<longrightarrow>
        AzureCliCredentials_getToken execAz nowMs this =
          (Inr \<lparr>accessToken = accessToken (tokenInfo this), tokenType = tokenType (tokenInfo this)\<rparr>,
           this, []))
   \<and> (expiresOn (tokenInfo this) = Some (Date ms) \<and>
      ms div 1000 - nowMs div 1000 < 270 \<and>
      fst (AzureCliCredentials_getToken execAz nowMs this) = Inr r \<longrightarrow>
        (\<exists>cmd t. getAccessToken execAz (Some (id' (subscriptionInfo this))) = (Inr t, [cmd]) \<and>
           AzureCliCredentials_getToken execAz nowMs this =
             (Inr \<lparr>accessToken = accessToken t, tokenType = tokenType t\<rparr>,
              this\<lparr>tokenInfo := t\<rparr>, [cmd])))"
proof (intro conjI impI)
  assume "fst (AzureCliCredentials_getToken execAz nowMs this) = Inr r"
  then show "r = \<lparr>accessToken = accessToken (tokenInfo (fst (snd (AzureCliCredentials_getToken execAz nowMs this)))),
            tokenType = tokenType (tokenInfo (fst (snd (AzureCliCredentials_getToken execAz nowMs this))))\<rparr>"
    by (rule getToken_result)
next
  assume "expiresOn (tokenInfo this) = Some (Date ms) \<and>
      id' (subscriptionInfo this) = subscription (tokenInfo this) \<and>
      270 \<le> ms div 1000 - nowMs div 1000"
  then show "AzureCliCredentials_getToken execAz nowMs this =
          (Inr \<lparr>accessToken = accessToken (tokenInfo this), tokenType = tokenType (tokenInfo this)\<rparr>,
           this, [])"
    by (simp add: getToken_cached)
next
  assume "expiresOn (tokenInfo this) = Some (Date ms) \<and>
      ms div 1000 - nowMs div 1000 < 270 \<and>
      fst (AzureCliCredentials_getToken execAz nowMs this) = Inr r"
  then show "\<exists>cmd t. getAccessToken execAz (Some (id' (subscriptionInfo this))) = (Inr t, [cmd]) \<and>
           AzureCliCredentials_getToken execAz nowMs this =
             (Inr \<lparr>accessToken = accessToken t, tokenType = tokenType t\<rparr>,
              this\<lparr>tokenInfo := t\<rparr>, [cmd])"
    using getToken_refreshed [of this ms nowMs execAz r] by blast
qed

theorem getToken_returns_current_witness:
  "AzureCliCredentials_getToken (execAz_reply (Inl ''az: not found'')) 1000999
       (sampleCredentials ''A'' 99999999) =
     (Inr \<lparr>accessToken = ''abc123'', tokenType = ''Bearer''\<rparr>, sampleCredentials ''A'' 99999999, [])
   \<and> fst (AzureCliCredentials_getToken (execAz_reply (Inr (sampleToken ''xyz789'' ''A'' 99999999))) 1000999
       (sampleCredentials ''A'' 1200000)) = Inr \<lparr>accessToken = ''xyz789'', tokenType = ''Bearer''\<rparr>
   \<and> length (snd (snd (AzureCliCredentials_getToken
        (execAz_reply (Inr (sampleToken ''xyz789'' ''A'' 99999999))) 1000999
        (sampleCredentials ''A'' 1200000)))) = 1"
proof -
  let ?down = "execAz_reply (Inl ''az: not found'')"
  let ?up = "execAz_reply (Inr (sampleToken ''xyz789'' ''A'' 99999999))"
  let ?r = "\<lparr>accessToken = ''xyz789'', tokenType = ''Bearer''\<rparr>"
  have valid: "expiresOn (tokenInfo (sampleCredentials ''A'' 99999999)) = Some (Date 99999999) \<and>
      id' (subscriptionInfo (sampleCredentials ''A'' 99999999)) =
        subscription (tokenInfo (sampleCredentials ''A'' 99999999)) \<and>
      (270::int) \<le> 99999999 div 1000 - 1000999 div 1000"
    by (simp add: sample_defs)
  have p1: "AzureCliCredentials_getToken ?down 1000999 (sampleCredentials ''A'' 99999999) =
      (Inr \<lparr>accessToken = ''abc123'', tokenType = ''Bearer''\<rparr>, sampleCredentials ''A'' 99999999, [])"
    using getToken_returns_current [where execAz = ?down and nowMs = 1000999
        and this = "sampleCredentials ''A'' 99999999" and ms = 99999999] valid
    by (simp add: sampleCredentials_def sampleToken_def)
  have ok: "fst (AzureCliCredentials_getToken ?up 1000999 (sampleCredentials ''A'' 1200000)) = Inr ?r"
    by (simp add: AzureCliCredentials_getToken_def sample_defs)
  have stale: "expiresOn (tokenInfo (sampleCredentials ''A'' 1200000)) = Some (Date 1200000) \<and>
      (1200000::int) div 1000 - 1000999 div 1000 < 270"
    by (simp add: sample_defs)
  have "\<exists>cmd t. getAccessToken ?up (Some (id' (subscriptionInfo (sampleCredentials ''A'' 1200000)))) =
          (Inr t, [cmd]) \<and>
        AzureCliCredentials_getToken ?up 1000999 (sampleCredentials ''A'' 1200000) =
          (Inr \<lparr>accessToken = accessToken t, tokenType = tokenType t\<rparr>,
           (sampleCredentials ''A'' 1200000)\<lparr>tokenInfo := t\<rparr>, [cmd])"
    using getToken_returns_current [where execAz = ?up and nowMs = 1000999
        and this = "sampleCredentials ''A'' 1200000" and ms = 1200000 and r = ?r] ok stale
    by blast
  then have p3: "length (snd (snd (AzureCliCredentials_getToken ?up 1000999
      (sampleCredentials ''A'' 1200000)))) = 1"
    by auto
  from p1 ok p3 show ?thesis by blast
qed

section \<open>Properties of signRequest and of MSITokenCredentials\<close>




lemma cli_signRequest_error:
  assumes "fst (AzureCliCredentials_getToken execAz nowMs this) = Inl err"
  shows "AzureCliCredentials_signRequest execAz nowMs this webResource =
           (Inl err, fst (snd (AzureCliCredentials_getToken execAz nowMs this)), webResource,
            snd (snd (AzureCliCredentials_getToken execAz nowMs this)))"
  using assms
  by (cases "AzureCliCredentials_getToken execAz nowMs this")
    (simp add: AzureCliCredentials_signRequest_def)

lemma cli_signRequest_ok:
  assumes "fst (AzureCliCredentials_getToken execAz nowMs this) = Inr r"
  shows "AzureCliCredentials_signRequest execAz nowMs this webResource =
           (Inr (webResource\<lparr>headers := (headers webResource)(AUTHORIZATION \<mapsto> tokenType r @ '' '' @ accessToken r)\<rparr>),
            fst (snd (AzureCliCredentials_getToken execAz nowMs this)),
            webResource\<lparr>headers := (headers webResource)(AUTHORIZATION \<mapsto> tokenType r @ '' '' @ accessToken r)\<rparr>,
            snd (snd (AzureCliCredentials_getToken execAz nowMs this)))"
  using assms
  by (cases "AzureCliCredentials_getToken execAz nowMs this")
    (simp add: AzureCliCredentials_signRequest_def Let_def)

lemma msi_getToken_snd:
  "snd (MSITokenCredentials_getToken sendRequest this) = (this, [prepareRequestOptions this])"
  by (simp add: MSITokenCredentials_getToken_def Let_def)

lemma msi_getToken_pair:
  "MSITokenCredentials_getToken sendRequest this =
     (fst (MSITokenCredentials_getToken sendRequest this), this, [prepareRequestOptions this])"
  using msi_getToken_snd [of sendRequest this] by (simp add: prod_eq_iff)

lemma msi_getToken_Inr:
  assumes "fst (MSITokenCredentials_getToken sendRequest this) = Inr result"
  shows "\<exists>opRes token_type access_token.
           sendRequest (prepareRequestOptions this) = Inr opRes \<and> bodyAsJson opRes = result \<and>
           getProp result ''token_type'' = Inr token_type \<and> truthy token_type \<and>
           getProp result ''access_token'' = Inr access_token \<and> truthy access_token"
  using assms
  by (auto simp add: MSITokenCredentials_getToken_def Let_def split: sum.splits if_splits)

lemma msi_signRequest_error:
  assumes "fst (MSITokenCredentials_getToken sendRequest this) = Inl err"
  shows "MSITokenCredentials_signRequest sendRequest this webResource =
           (Inl err, this, webResource, [prepareRequestOptions this])"
  using assms msi_getToken_pair [of sendRequest this]
  by (simp add: MSITokenCredentials_signRequest_def)

lemma msi_signRequest_ok:
  assumes "fst (MSITokenCredentials_getToken sendRequest this) = Inr tokenResponse"
    and "getProp tokenResponse ''token_type'' = Inr token_type"
    and "getProp tokenResponse ''access_token'' = Inr access_token"
  shows "MSITokenCredentials_signRequest sendRequest this webResource =
           (Inr (webResource\<lparr>headers := (headers webResource)
                  (AUTHORIZATION \<mapsto> toString_js token_type @ '' '' @ toString_js access_token)\<rparr>),
            this,
            webResource\<lparr>headers := (headers webResource)
                  (AUTHORIZATION \<mapsto> toString_js token_type @ '' '' @ toString_js access_token)\<rparr>,
            [prepareRequestOptions this])"
  using assms msi_getToken_pair [of sendRequest this]
  by (simp add: MSITokenCredentials_signRequest_def Let_def)










lemmas msi_sample_defs = sendRequest_reply_def defaultCredentials_def response_def

text \<open>
  C4. When \<open>getToken\<close> succeeds with token type \<open>T\<close> and access token \<open>A\<close>, \<open>signRequest\<close>
  of either class sets the authorization header of the request to \<open>T\<close>, one space, \<open>A\<close>,
  changes nothing else of the request, and returns it. With \<open>Bearer\<close> and \<open>abc123\<close> the
  header is \<open>Bearer abc123\<close>.
\<close>

theorem signRequest_sets_authorization:
  "(fst (AzureCliCredentials_getToken execAz nowMs this) = Inr \<lparr>accessToken = A, tokenType = T\<rparr> \<longrightarrow>
      fst (AzureCliCredentials_signRequest execAz nowMs this webResource) =
        Inr (webResource\<lparr>headers := (headers webResource)(AUTHORIZATION \<mapsto> T @ '' '' @ A)\<rparr>) \<and>
      fst (snd (snd (AzureCliCredentials_signRequest execAz nowMs this webResource))) =
        webResource\<lparr>headers := (headers webResource)(AUTHORIZATION \<mapsto> T @ '' '' @ A)\<rparr> \<and>
      headers (fst (snd (snd (AzureCliCredentials_signRequest execAz nowMs this webResource))))
        AUTHORIZATION = Some (T @ CHR '' '' # A))
   \<and> (fst (MSITokenCredentials_getToken sendRequest msi) = Inr tokenResponse \<and>
      getProp tokenResponse ''token_type'' = Inr (JString T) \<and>
      getProp tokenResponse ''access_token'' = Inr (JString A) \<longrightarrow>
      fst (MSITokenCredentials_signRequest sendRequest msi webResource) =
        Inr (webResource\<lparr>headers := (headers webResource)(AUTHORIZATION \<mapsto> T @ '' '' @ A)\<rparr>) \<and>
      fst (snd (snd (MSITokenCredentials_signRequest sendRequest msi webResource))) =
        webResource\<lparr>headers := (headers webResource)(AUTHORIZATION \<mapsto> T @ '' '' @ A)\<rparr> \<and>
      headers (fst (snd (snd (MSITokenCredentials_signRequest sendRequest msi webResource))))
        AUTHORIZATION = Some (T @ CHR '' '' # A))"
proof (intro conjI impI)
  assume a: "fst (AzureCliCredentials_getToken execAz nowMs this) = Inr \<lparr>accessToken = A, tokenType = T\<rparr>"
  note s = cli_signRequest_ok [OF a, of webResource]
  show "fst (AzureCliCredentials_signRequest execAz nowMs this webResource) =
        Inr (webResource\<lparr>headers := (headers webResource)(AUTHORIZATION \<mapsto> T @ '' '' @ A)\<rparr>)"
    using s by simp
  show "fst (snd (snd (AzureCliCredentials_signRequest execAz nowMs this webResource))) =
        webResource\<lparr>headers := (headers webResource)(AUTHORIZATION \<mapsto> T @ '' '' @ A)\<rparr>"
    using s by simp
  show "headers (fst (snd (snd (AzureCliCredentials_signRequest execAz nowMs this webResource))))
        AUTHORIZATION = Some (T @ CHR '' '' # A)"
    using s by simp
next
  assume b: "fst (MSITokenCredentials_getToken sendRequest msi) = Inr tokenResponse \<and>
      getProp tokenResponse ''token_type'' = Inr (JString T) \<and>
      getProp tokenResponse ''access_token'' = Inr (JString A)"
  then have s: "MSITokenCredentials_signRequest sendRequest msi webResource =
      (Inr (webResource\<lparr>headers := (headers webResource)
              (AUTHORIZATION \<mapsto> toString_js (JString T) @ '' '' @ toString_js (JString A))\<rparr>),
       msi,
       webResource\<lparr>headers := (headers webResource)
              (AUTHORIZATION \<mapsto> toString_js (JString T) @ '' '' @ toString_js (JString A))\<rparr>,
       [prepareRequestOptions msi])"
    by (simp add: msi_signRequest_ok)
  show "fst (MSITokenCredentials_signRequest sendRequest msi webResource) =
        Inr (webResource\<lparr>headers := (headers webResource)(AUTHORIZATION \<mapsto> T @ '' '' @ A)\<rparr>)"
    using s by simp
  show "fst (snd (snd (MSITokenCredentials_signRequest sendRequest msi webResource))) =
        webResource\<lparr>headers := (headers webResource)(AUTHORIZATION \<mapsto> T @ '' '' @ A)\<rparr>"
    using s by simp
  show "headers (fst (snd (snd (MSITokenCredentials_signRequest sendRequest msi webResource))))
        AUTHORIZATION = Some (T @ CHR '' '' # A)"
    using s by simp
qed

theorem signRequest_sets_authorization_witness:
  "headers (fst (snd (snd (AzureCliCredentials_signRequest (execAz_reply (Inl ''az: not found''))
       1000999 (sampleCredentials ''A'' 99999999) \<lparr>headers = Map.empty\<rparr>)))) AUTHORIZATION =
     Some ''Bearer abc123''
   \<and> headers (fst (snd (snd (MSITokenCredentials_signRequest
       (sendRequest_reply (Inr (response
          [(''access_token'', JString ''abc123''), (''token_type'', JString ''Bearer'')] ''{...}'')))
       defaultCredentials \<lparr>headers = Map.empty\<rparr>)))) AUTHORIZATION =
     Some ''Bearer abc123''"
proof -
  let ?az = "execAz_reply (Inl ''az: not found'')"
  let ?body = "[(''access_token'', JString ''abc123''), (''token_type'', JString ''Bearer'')]"
  let ?sr = "sendRequest_reply (Inr (response ?body ''{...}''))"
  let ?w = "\<lparr>headers = Map.empty\<rparr>"
  have cli: "fst (AzureCliCredentials_getToken ?az 1000999 (sampleCredentials ''A'' 99999999)) =
      Inr \<lparr>accessToken = ''abc123'', tokenType = ''Bearer''\<rparr>"
    by (simp add: AzureCliCredentials_getToken_def sample_defs)
  have msi: "fst (MSITokenCredentials_getToken ?sr defaultCredentials) = Inr (JObject ?body) \<and>
      getProp (JObject ?body) ''token_type'' = Inr (JString ''Bearer'') \<and>
      getProp (JObject ?body) ''access_token'' = Inr (JString ''abc123'')"
    by (simp add: MSITokenCredentials_getToken_def Let_def msi_sample_defs)
  note t = signRequest_sets_authorization [where execAz = ?az and nowMs = 1000999
      and this = "sampleCredentials ''A'' 99999999" and A = "''abc123''" and T = "''Bearer''"
      and sendRequest = ?sr and msi = defaultCredentials and tokenResponse = "JObject ?body"
      and webResource = ?w]
  have "headers (fst (snd (snd (AzureCliCredentials_signRequest ?az 1000999
      (sampleCredentials ''A'' 99999999) ?w)))) AUTHORIZATION = Some (''Bearer'' @ CHR '' '' # ''abc123'')"
    using t cli by blast
  moreover have "headers (fst (snd (snd (MSITokenCredentials_signRequest ?sr defaultCredentials ?w))))
      AUTHORIZATION = Some (''Bearer'' @ CHR '' '' # ''abc123'')"
    using t msi by blast
  ultimately show ?thesis by simp
qed

text \<open>
  C5. When \<open>getToken\<close> fails, \<open>signRequest\<close> of either class fails with the same error and
  the request is as it was: no header is written.
\<close>

theorem signRequest_propagates_failure:
  "(fst (AzureCliCredentials_getToken execAz nowMs this) = Inl err \<longrightarrow>
      fst (AzureCliCredentials_signRequest execAz nowMs this webResource) = Inl err \<and>
      fst (snd (snd (AzureCliCredentials_signRequest execAz nowMs this webResource))) = webResource)
   \<and> (fst (MSITokenCredentials_getToken sendRequest msi) = Inl err \<longrightarrow>
      fst (MSITokenCredentials_signRequest sendRequest msi webResource) = Inl err \<and>
      fst (snd (snd (MSITokenCredentials_signRequest sendRequest msi webResource))) = webResource)"
  by (simp add: cli_signRequest_error msi_signRequest_error)

theorem signRequest_propagates_failure_witness:
  "fst (AzureCliCredentials_signRequest (execAz_reply (Inl ''az: not found'')) 1000999
       (sampleCredentials ''B'' 99999999) \<lparr>headers = Map.empty\<rparr>) =
     Inl (Error ''An error occurred while refreshing the new access token:An error occurred while getting credentials from Azure CLI: az: not found'')
   \<and> headers (fst (snd (snd (AzureCliCredentials_signRequest (execAz_reply (Inl ''az: not found''))
       1000999 (sampleCredentials ''B'' 99999999) \<lparr>headers = Map.empty\<rparr>)))) AUTHORIZATION = None
   \<and> fst (MSITokenCredentials_signRequest (sendRequest_reply (Inl (Error ''connect ECONNREFUSED 127.0.0.1:50342'')))
       defaultCredentials \<lparr>headers = Map.empty\<rparr>) =
     Inl (Error ''connect ECONNREFUSED 127.0.0.1:50342'')
   \<and> headers (fst (snd (snd (MSITokenCredentials_signRequest
       (sendRequest_reply (Inl (Error ''connect ECONNREFUSED 127.0.0.1:50342'')))
       defaultCredentials \<lparr>headers = Map.empty\<rparr>)))) AUTHORIZATION = None"
proof -
  let ?az = "execAz_reply (Inl ''az: not found'')"
  let ?e = "Error ''An error occurred while refreshing the new access token:An error occurred while getting credentials from Azure CLI: az: not found''"
  let ?sr = "sendRequest_reply (Inl (Error ''connect ECONNREFUSED 127.0.0.1:50342''))"
  let ?w = "\<lparr>headers = Map.empty\<rparr>"
  have cli: "fst (AzureCliCredentials_getToken ?az 1000999 (sampleCredentials ''B'' 99999999)) = Inl ?e"
    by (simp add: AzureCliCredentials_getToken_def sample_defs)
  have msi: "fst (MSITokenCredentials_getToken ?sr defaultCredentials) =
      Inl (Error ''connect ECONNREFUSED 127.0.0.1:50342'')"
    by (simp add: MSITokenCredentials_getToken_def Let_def msi_sample_defs)
  have "fst (AzureCliCredentials_signRequest ?az 1000999 (sampleCredentials ''B'' 99999999) ?w) = Inl ?e \<and>
      fst (snd (snd (AzureCliCredentials_signRequest ?az 1000999 (sampleCredentials ''B'' 99999999) ?w))) = ?w"
    using signRequest_propagates_failure [where execAz = ?az and nowMs = 1000999
      and this = "sampleCredentials ''B'' 99999999" and err = ?e and webResource = ?w] cli
    by blast
  moreover have "fst (MSITokenCredentials_signRequest ?sr defaultCredentials ?w) =
        Inl (Error ''connect ECONNREFUSED 127.0.0.1:50342'') \<and>
      fst (snd (snd (MSITokenCredentials_signRequest ?sr defaultCredentials ?w))) = ?w"
    using signRequest_propagates_failure [where sendRequest = ?sr and msi = defaultCredentials
      and err = "Error ''connect ECONNREFUSED 127.0.0.1:50342''" and webResource = ?w] msi
    by blast
  ultimately show ?thesis by simp
qed















end
